theory Spec2Isabelle
  imports Main "HOL-Library.Sublist"
begin

section \<open>The conversational session of \<^verbatim>\<open>citadel_agent.py\<close>\<close>

text \<open>
  The module defines three pydantic models (\<^verbatim>\<open>Message\<close>, \<^verbatim>\<open>AzureAIConfig\<close>,
  \<^verbatim>\<open>EchoAgent\<close>) and the methods of \<^verbatim>\<open>EchoAgent\<close>. The methods mutate the agent
  and talk to two things outside the module: the process environment (\<^verbatim>\<open>os.getenv\<close>)
  and the completion endpoint behind the client handle. The embedding passes the agent
  explicitly, takes the outside as a parameter, and keeps a log of what the code did to
  the outside, so that "no remote call was made" and "no handle was built" are
  statements about values.
\<close>

subsection \<open>Data\<close>

record Message =
  role :: string
  content :: string

record AzureAIConfig =
  api_key :: string
  api_base :: string
  api_version :: string
  deployment_name :: string

text \<open>
  The handle returned by \<^verbatim>\<open>AsyncAzureOpenAI(api_key=..., api_version=..., azure_endpoint=...)\<close>:
  the three keyword arguments it was built from.
\<close>

record AsyncAzureOpenAI =
  client_api_key :: string
  client_api_version :: string
  azure_endpoint :: string

record EchoAgent =
  messages :: "Message list"
  config :: "AzureAIConfig option"
  client :: "AsyncAzureOpenAI option"

text \<open>
  Exceptions, each with the text \<^verbatim>\<open>str(e)\<close> gives. \<^verbatim>\<open>ValueError\<close> is raised by
  \<^verbatim>\<open>initialize\<close>; \<^verbatim>\<open>AttributeError\<close> by an attribute read on \<^verbatim>\<open>None\<close>;
  \<^verbatim>\<open>IndexError\<close> by \<^verbatim>\<open>choices[0]\<close> on an empty list; \<^verbatim>\<open>ValidationError\<close> by
  pydantic when \<^verbatim>\<open>Message\<close> is built with a content that is not a string;
  \<^verbatim>\<open>RemoteError\<close> stands for whatever the completion call itself raises, and
  \<^verbatim>\<open>ClientError\<close> for whatever the constructor \<^verbatim>\<open>AsyncAzureOpenAI(...)\<close> raises.
\<close>

datatype exn =
    ValueError string
  | AttributeError string
  | IndexError string
  | ValidationError string
  | RemoteError string
  | ClientError string

fun str :: "exn \<Rightarrow> string" where
  "str (ValueError s) = s"
| "str (AttributeError s) = s"
| "str (IndexError s) = s"
| "str (ValidationError s) = s"
| "str (RemoteError s) = s"
| "str (ClientError s) = s"

text \<open>
  One element of the \<^verbatim>\<open>messages=\<close> argument of \<^verbatim>\<open>chat.completions.create\<close>: either a
  \<^verbatim>\<open>Message\<close> model object, or a plain dict, kept as its key/value pairs in insertion
  order.
\<close>

datatype request_item =
    ModelObject Message
  | Dict "(string \<times> string) list"

text \<open>
  What one call of \<^verbatim>\<open>chat.completions.create\<close> does: it raises (with the text of the
  exception), or it returns a response, of which the code reads only
  \<^verbatim>\<open>choices[i].message.content\<close>; a content is a string or \<^verbatim>\<open>None\<close>.
\<close>

datatype completion =
    Raises string
  | Response "string option list"

text \<open>
  The outside of the module. \<open>getenv\<close> is \<^verbatim>\<open>os.getenv\<close>. \<open>create\<close> is the endpoint:
  its answer may depend on the number of calls made before, on the handle, on the
  \<^verbatim>\<open>model=\<close> argument and on the \<^verbatim>\<open>messages=\<close> argument. \<open>validation_text\<close> is the text
  pydantic renders for a \<^verbatim>\<open>Message\<close> whose content is \<^verbatim>\<open>None\<close>; it belongs to the
  library and is a parameter here. \<open>client_error\<close> is the constructor
  \<^verbatim>\<open>AsyncAzureOpenAI(api_key=k, api_version=v, azure_endpoint=b)\<close>, which also belongs
  to the library: \<open>client_error k v b\<close> is the text of the exception it raises on these
  arguments (a malformed endpoint address, for one), or \<open>None\<close> when it returns a handle.
\<close>

record env =
  getenv :: "string \<Rightarrow> string option"
  create :: "nat \<Rightarrow> AsyncAzureOpenAI \<Rightarrow> string \<Rightarrow> request_item list \<Rightarrow> completion"
  validation_text :: string
  client_error :: "string \<Rightarrow> string \<Rightarrow> string \<Rightarrow> string option"

text \<open>
  The log of effects on the outside: the completion requests sent (the \<^verbatim>\<open>model=\<close> and
  \<^verbatim>\<open>messages=\<close> arguments of each call, in order) and the client handles constructed.
\<close>

record world =
  sent :: "(string \<times> request_item list) list"
  built :: "AsyncAzureOpenAI list"

subsection \<open>Python primitives\<close>

text \<open>\<^verbatim>\<open>not v\<close> for \<^verbatim>\<open>v\<close> of type \<^verbatim>\<open>Optional[str]\<close>: true of \<^verbatim>\<open>None\<close> and of the empty string.\<close>

fun py_not :: "string option \<Rightarrow> bool" where
  "py_not None = True"
| "py_not (Some s) = (s = [])"

text \<open>\<^verbatim>\<open>sep.join(xs)\<close>.\<close>

fun join :: "string \<Rightarrow> string list \<Rightarrow> string" where
  "join sep [] = []"
| "join sep [x] = x"
| "join sep (x # y # ys) = x @ sep @ join sep (y # ys)"

subsection \<open>\<^verbatim>\<open>EchoAgent.initialize\<close>\<close>

text \<open>
  Lines 46 to 54: the list \<^verbatim>\<open>missing_vars\<close>, grown by four tests in a fixed order.
\<close>

definition missing_vars :: "env \<Rightarrow> string list" where
  "missing_vars e =
     (let mv = [];
          mv = (if py_not (getenv e ''AZURE_OPENAI_API_KEY'')
                then mv @ [''AZURE_OPENAI_API_KEY''] else mv);
          mv = (if py_not (getenv e ''AZURE_OPENAI_API_BASE'')
                then mv @ [''AZURE_OPENAI_API_BASE''] else mv);
          mv = (if py_not (getenv e ''AZURE_OPENAI_API_VERSION'')
                then mv @ [''AZURE_OPENAI_API_VERSION''] else mv);
          mv = (if py_not (getenv e ''AZURE_OPENAI_DEPLOYMENT_NAME'')
                then mv @ [''AZURE_OPENAI_DEPLOYMENT_NAME''] else mv)
      in mv)"

text \<open>Line 57: the text of the \<^verbatim>\<open>ValueError\<close>.\<close>

definition missing_text :: "string list \<Rightarrow> string" where
  "missing_text mv =
     ''Missing required environment variables: '' @ join '', '' mv
       @ ''. Please check your .env file.''"

text \<open>Lines 59 to 64: the configuration read from the environment.\<close>

definition env_config :: "env \<Rightarrow> AzureAIConfig" where
  "env_config e =
     \<lparr>api_key = the (getenv e ''AZURE_OPENAI_API_KEY''),
      api_base = the (getenv e ''AZURE_OPENAI_API_BASE''),
      api_version = the (getenv e ''AZURE_OPENAI_API_VERSION''),
      deployment_name = the (getenv e ''AZURE_OPENAI_DEPLOYMENT_NAME'')\<rparr>"

text \<open>
  The result of a method is the exception it raised or the value it returned, together
  with the agent and the log as they are when it returns or raises.
\<close>

text \<open>
  Lines 66 to 70: build the handle from the configuration and store it. When the
  constructor raises, the assignment to \<^verbatim>\<open>self.client\<close> does not happen and the
  exception leaves \<^verbatim>\<open>initialize\<close>.
\<close>

definition bind_client ::
  "env \<Rightarrow> AzureAIConfig \<Rightarrow> EchoAgent \<Rightarrow> world \<Rightarrow> (exn + unit) \<times> EchoAgent \<times> world" where
  "bind_client e cfg a w =
     (case client_error e (api_key cfg) (api_version cfg) (api_base cfg) of
        Some d \<Rightarrow> (Inl (ClientError d), a, w)
      | None \<Rightarrow>
          (let h = \<lparr>client_api_key = api_key cfg,
                    client_api_version = api_version cfg,
                    azure_endpoint = api_base cfg\<rparr>
           in (Inr (), a\<lparr>client := Some h\<rparr>, w\<lparr>built := built w @ [h]\<rparr>)))"

text \<open>
  On the path through the environment, line 59 stores the configuration before the
  constructor runs at line 66: a raise of the constructor leaves the agent with the
  configuration and without a client.
\<close>

definition initialize :: "env \<Rightarrow> EchoAgent \<Rightarrow> world \<Rightarrow> (exn + unit) \<times> EchoAgent \<times> world" where
  "initialize e a w =
     (case config a of
        None \<Rightarrow>
          (if missing_vars e \<noteq> []
           then (Inl (ValueError (missing_text (missing_vars e))), a, w)
           else (let a1 = a\<lparr>config := Some (env_config e)\<rparr>
                 in bind_client e (env_config e) a1 w))
      | Some cfg \<Rightarrow> bind_client e cfg a w)"

subsection \<open>\<^verbatim>\<open>EchoAgent.add_message\<close>\<close>

text \<open>
  \<^verbatim>\<open>Message(role=role, content=content)\<close>: pydantic accepts a string content and raises
  \<^verbatim>\<open>ValidationError\<close> on \<^verbatim>\<open>None\<close>. The role is a string at every call of the module
  and is stored as given: the field is declared \<^verbatim>\<open>role: str\<close>.
\<close>

definition new_Message :: "env \<Rightarrow> string \<Rightarrow> string option \<Rightarrow> exn + Message" where
  "new_Message e r c =
     (case c of
        None \<Rightarrow> Inl (ValidationError (validation_text e))
      | Some s \<Rightarrow> Inr \<lparr>role = r, content = s\<rparr>)"

text \<open>
  The content is optional because line 86 and line 111 pass on what the response
  holds. The message is built before the list is touched, so a raise leaves the agent
  as it was.
\<close>

definition add_message :: "env \<Rightarrow> string \<Rightarrow> string option \<Rightarrow> EchoAgent \<Rightarrow> exn + EchoAgent" where
  "add_message e r c a =
     (case new_Message e r c of
        Inl x \<Rightarrow> Inl x
      | Inr m \<Rightarrow> Inr (a\<lparr>messages := messages a @ [m]\<rparr>))"

subsection \<open>The request/response cycle\<close>

text \<open>
  The body of the \<^verbatim>\<open>try\<close> block, lines 80 to 87 and lines 105 to 112, which differ only
  in the \<^verbatim>\<open>messages=\<close> argument \<open>msgs\<close>. Python evaluates the callee
  \<^verbatim>\<open>self.client.chat.completions.create\<close> before the arguments, so an absent client is
  found before an absent configuration.
\<close>

definition none_has_no :: "string \<Rightarrow> string" where
  "none_has_no attr =
     [CHR 0x27] @ ''NoneType'' @ [CHR 0x27] @ '' object has no attribute ''
       @ [CHR 0x27] @ attr @ [CHR 0x27]"

definition try_completion ::
  "env \<Rightarrow> request_item list \<Rightarrow> EchoAgent \<Rightarrow> world \<Rightarrow> (exn + string) \<times> EchoAgent \<times> world" where
  "try_completion e msgs a w =
     (case client a of
        None \<Rightarrow> (Inl (AttributeError (none_has_no ''chat'')), a, w)
      | Some h \<Rightarrow>
          (case config a of
             None \<Rightarrow> (Inl (AttributeError (none_has_no ''deployment_name'')), a, w)
           | Some cfg \<Rightarrow>
               (let w1 = w\<lparr>sent := sent w @ [(deployment_name cfg, msgs)]\<rparr>
                in case create e (length (sent w)) h (deployment_name cfg) msgs of
                     Raises d \<Rightarrow> (Inl (RemoteError d), a, w1)
                   | Response choices \<Rightarrow>
                       (case choices of
                          [] \<Rightarrow> (Inl (IndexError ''list index out of range''), a, w1)
                        | assistant_message # _ \<Rightarrow>
                            (case add_message e ''assistant'' assistant_message a of
                               Inl x \<Rightarrow> (Inl x, a, w1)
                             | Inr a1 \<Rightarrow> (Inr (the assistant_message), a1, w1))))))"

text \<open>
  The \<^verbatim>\<open>except Exception as e\<close> clause, lines 89 to 92 and 114 to 117: a result of the
  \<^verbatim>\<open>try\<close> body is returned as it is; an exception becomes a \<^verbatim>\<open>system\<close> message and
  the return value.
\<close>

definition except_Exception ::
  "env \<Rightarrow> (exn + string) \<times> EchoAgent \<times> world \<Rightarrow> (exn + string) \<times> EchoAgent \<times> world" where
  "except_Exception e r =
     (case r of
        (Inr reply, a, w) \<Rightarrow> (Inr reply, a, w)
      | (Inl x, a, w) \<Rightarrow>
          (let error_message = ''Error communicating with Azure OpenAI API: '' @ str x
           in case add_message e ''system'' (Some error_message) a of
                Inl y \<Rightarrow> (Inl y, a, w)
              | Inr a1 \<Rightarrow> (Inr error_message, a1, w)))"

definition echo_message ::
  "env \<Rightarrow> string \<Rightarrow> EchoAgent \<Rightarrow> world \<Rightarrow> (exn + string) \<times> EchoAgent \<times> world" where
  "echo_message e text a w =
     (case add_message e ''user'' (Some text) a of
        Inl x \<Rightarrow> (Inl x, a, w)
      | Inr a1 \<Rightarrow>
          except_Exception e (try_completion e (map ModelObject (messages a1)) a1 w))"

text \<open>Line 102 and line 121: the comprehension that turns a message into a dict.\<close>

definition as_dict :: "Message \<Rightarrow> (string \<times> string) list" where
  "as_dict msg = [(''role'', role msg), (''content'', content msg)]"

definition process_with_ai ::
  "env \<Rightarrow> string \<Rightarrow> EchoAgent \<Rightarrow> world \<Rightarrow> (exn + string) \<times> EchoAgent \<times> world" where
  "process_with_ai e text a w =
     (case (if client a = None then initialize e a w else (Inr (), a, w)) of
        (Inl x, a0, w0) \<Rightarrow> (Inl x, a0, w0)
      | (Inr u, a0, w0) \<Rightarrow>
          (case add_message e ''user'' (Some text) a0 of
             Inl x \<Rightarrow> (Inl x, a0, w0)
           | Inr a1 \<Rightarrow>
               (let formatted_messages = map (\<lambda>msg. Dict (as_dict msg)) (messages a1)
                in except_Exception e (try_completion e formatted_messages a1 w0))))"

definition get_chat_history :: "EchoAgent \<Rightarrow> (string \<times> string) list list" where
  "get_chat_history a = map as_dict (messages a)"

subsection \<open>Sequences of calls\<close>

text \<open>A caller that appends one message after the other and stops at the first raise.\<close>

fun add_messages :: "env \<Rightarrow> (string \<times> string) list \<Rightarrow> EchoAgent \<Rightarrow> exn + EchoAgent" where
  "add_messages e [] a = Inr a"
| "add_messages e ((r, c) # ps) a =
     (case add_message e r (Some c) a of
        Inl x \<Rightarrow> Inl x
      | Inr a1 \<Rightarrow> add_messages e ps a1)"

text \<open>
  A caller that submits one text after the other through \<^verbatim>\<open>process_with_ai\<close> on the
  same agent, whatever each call returns or raises.
\<close>

fun process_all :: "env \<Rightarrow> string list \<Rightarrow> EchoAgent \<Rightarrow> world \<Rightarrow> EchoAgent \<times> world" where
  "process_all e [] a w = (a, w)"
| "process_all e (t # ts) a w =
     (case process_with_ai e t a w of (r, a1, w1) \<Rightarrow> process_all e ts a1 w1)"

subsection \<open>Concrete sessions\<close>

definition fresh_agent :: EchoAgent where
  "fresh_agent = \<lparr>messages = [], config = None, client = None\<rparr>"

definition fresh_world :: world where
  "fresh_world = \<lparr>sent = [], built = []\<rparr>"

definition ready_agent :: EchoAgent where
  "ready_agent =
     \<lparr>messages = [],
      config = Some \<lparr>api_key = ''secret'', api_base = ''https://example.openai.azure.com'',
                     api_version = ''2024-02-01'', deployment_name = ''gpt-4o''\<rparr>,
      client = Some \<lparr>client_api_key = ''secret'', client_api_version = ''2024-02-01'',
                     azure_endpoint = ''https://example.openai.azure.com''\<rparr>\<rparr>"

text \<open>
  An outside with the given environment variables, whose endpoint gives the same answer
  to every call and whose constructor accepts every configuration.
\<close>

definition env_of :: "(string \<times> string) list \<Rightarrow> completion \<Rightarrow> env" where
  "env_of vars answer =
     \<lparr>getenv = map_of vars,
      create = (\<lambda>n h m msgs. answer),
      validation_text = ''1 validation error for Message'',
      client_error = (\<lambda>k v b. None)\<rparr>"

text \<open>The same outside with a constructor that raises on every configuration.\<close>

definition rejecting :: "env \<Rightarrow> string \<Rightarrow> env" where
  "rejecting e d = e\<lparr>client_error := (\<lambda>k v b. Some d)\<rparr>"

text \<open>
  The configuration \<^verbatim>\<open>initialize\<close> hands to the constructor: the one supplied, or the
  one read from the environment.
\<close>

definition resolved_config :: "env \<Rightarrow> EchoAgent \<Rightarrow> AzureAIConfig" where
  "resolved_config e a = (case config a of None \<Rightarrow> env_config e | Some cfg \<Rightarrow> cfg)"

text \<open>The constructor returns a handle for that configuration.\<close>

definition constructor_accepts :: "env \<Rightarrow> EchoAgent \<Rightarrow> bool" where
  "constructor_accepts e a =
     (client_error e (api_key (resolved_config e a)) (api_version (resolved_config e a))
        (api_base (resolved_config e a)) = None)"

definition full_vars :: "(string \<times> string) list" where
  "full_vars =
     [(''AZURE_OPENAI_API_KEY'', ''secret''),
      (''AZURE_OPENAI_API_BASE'', ''https://example.openai.azure.com''),
      (''AZURE_OPENAI_API_VERSION'', ''2024-02-01''),
      (''AZURE_OPENAI_DEPLOYMENT_NAME'', ''gpt-4o'')]"

text \<open>The key is not set; the base address is set, to the empty string.\<close>

definition blank_vars :: "(string \<times> string) list" where
  "blank_vars =
     [(''AZURE_OPENAI_API_BASE'', ''''),
      (''AZURE_OPENAI_API_VERSION'', ''2024-02-01''),
      (''AZURE_OPENAI_DEPLOYMENT_NAME'', ''gpt-4o'')]"

text \<open>The four names read at lines 40 to 43, in the order of the tests at lines 47 to 54.\<close>

definition required_vars :: "string list" where
  "required_vars =
     [''AZURE_OPENAI_API_KEY'', ''AZURE_OPENAI_API_BASE'',
      ''AZURE_OPENAI_API_VERSION'', ''AZURE_OPENAI_DEPLOYMENT_NAME'']"

section \<open>Properties\<close>

subsection \<open>Basic facts\<close>

lemma missing_vars_filter:
  "missing_vars e = filter (\<lambda>k. py_not (getenv e k)) required_vars"
  by (simp add: missing_vars_def required_vars_def Let_def)

lemma add_message_Some:
  "add_message e r (Some c) a =
     Inr (a\<lparr>messages := messages a @ [\<lparr>role = r, content = c\<rparr>]\<rparr>)"
  by (simp add: add_message_def new_Message_def)

lemma add_message_None:
  "add_message e r None a = Inl (ValidationError (validation_text e))"
  by (simp add: add_message_def new_Message_def)

subsection \<open>Appending a message\<close>

text \<open>
  C1, as stated: \<^verbatim>\<open>add_message\<close> with a role outside system, user, assistant fails and
  leaves the transcript as long as it was. The code has no such test: with the role
  \<^verbatim>\<open>moderator\<close> on a fresh agent the call returns and the transcript holds the
  message.
\<close>

theorem add_message_rejects_role_counterexample:
  "''moderator'' \<notin> {''system'', ''user'', ''assistant''} \<and>
   add_message (env_of [] (Response [])) ''moderator'' (Some ''hi'') fresh_agent
     = Inr \<lparr>messages = [\<lparr>role = ''moderator'', content = ''hi''\<rparr>],
            config = None, client = None\<rparr>"
  by (simp add: add_message_def new_Message_def fresh_agent_def)

text \<open>
  C1, amended: for every role string, inside the set system, user, assistant or not,
  and every content string, \<^verbatim>\<open>add_message\<close> returns without raising; the transcript
  is the old one followed by the one new message with that role and content, so its
  length grows by exactly one.
\<close>

theorem add_message_any_role:
  "add_message e r (Some c) a
     = Inr (a\<lparr>messages := messages a @ [\<lparr>role = r, content = c\<rparr>]\<rparr>) \<and>
   length (messages (a\<lparr>messages := messages a @ [\<lparr>role = r, content = c\<rparr>]\<rparr>))
     = Suc (length (messages a))"
  by (simp add: add_message_def new_Message_def)

subsection \<open>Initialization\<close>

text \<open>
  C2, as stated: the error of \<^verbatim>\<open>initialize\<close> names exactly the absent values. In the
  environment \<open>blank_vars\<close> only the key is absent; the base address is present and
  empty. The error names both, since line 49 tests \<^verbatim>\<open>not api_base\<close>.
\<close>

theorem initialize_names_absent_counterexample:
  "getenv (env_of blank_vars (Response [])) ''AZURE_OPENAI_API_KEY'' = None \<and>
   getenv (env_of blank_vars (Response [])) ''AZURE_OPENAI_API_BASE'' = Some '''' \<and>
   initialize (env_of blank_vars (Response [])) fresh_agent fresh_world =
     (Inl (ValueError ''Missing required environment variables: AZURE_OPENAI_API_KEY, AZURE_OPENAI_API_BASE. Please check your .env file.''),
      fresh_agent, fresh_world)"
  by (simp add: initialize_def missing_vars_def missing_text_def env_of_def blank_vars_def
      fresh_agent_def Let_def)

text \<open>
  C2, amended: when no configuration was supplied and at least one of the four
  required values is absent or is the empty string, \<^verbatim>\<open>initialize\<close> raises a
  \<^verbatim>\<open>ValueError\<close> whose text lists exactly the values that are absent or empty, all of
  them, in the order key, base address, version, deployment; the agent and the log
  are as before the call, so no client handle was built.
\<close>

theorem initialize_names_missing:
  assumes "config a = None"
    and "filter (\<lambda>k. py_not (getenv e k)) required_vars \<noteq> []"
  shows "initialize e a w =
           (Inl (ValueError
                  (missing_text (filter (\<lambda>k. py_not (getenv e k)) required_vars))),
            a, w)"
proof -
  from assms(2) have "missing_vars e \<noteq> []"
    by (simp add: missing_vars_filter)
  with assms(1) show ?thesis
    by (simp add: initialize_def missing_vars_filter)
qed

theorem initialize_names_missing_witness:
  "config fresh_agent = None \<and>
   filter (\<lambda>k. py_not (getenv (env_of [] (Response [])) k)) required_vars = required_vars \<and>
   initialize (env_of [] (Response [])) fresh_agent fresh_world =
     (Inl (ValueError ''Missing required environment variables: AZURE_OPENAI_API_KEY, AZURE_OPENAI_API_BASE, AZURE_OPENAI_API_VERSION, AZURE_OPENAI_DEPLOYMENT_NAME. Please check your .env file.''),
      fresh_agent, fresh_world)"
proof -
  have c: "config fresh_agent = None"
    by (simp add: fresh_agent_def)
  have m: "filter (\<lambda>k. py_not (getenv (env_of [] (Response [])) k)) required_vars \<noteq> []"
    by (simp add: required_vars_def env_of_def)
  show ?thesis
    using c initialize_names_missing [OF c m, of fresh_world]
    by (simp add: required_vars_def env_of_def missing_text_def)
qed

subsection \<open>Facts about the request/response cycle\<close>

lemmas cycle_defs = echo_message_def process_with_ai_def try_completion_def
  except_Exception_def add_message_def new_Message_def Let_def

lemma initialize_messages: "messages (fst (snd (initialize e a w))) = messages a"
  by (simp add: initialize_def bind_client_def Let_def split: option.splits)

lemma initialize_raises:
  assumes "config a = None" and "missing_vars e \<noteq> []"
  shows "initialize e a w = (Inl (ValueError (missing_text (missing_vars e))), a, w)"
  using assms by (simp add: initialize_def)

lemma initialize_returns:
  assumes "config a = None \<longrightarrow> missing_vars e = []" and "constructor_accepts e a"
  shows "\<exists>h. fst (initialize e a w) = Inr () \<and>
             client (fst (snd (initialize e a w))) = Some h \<and>
             messages (fst (snd (initialize e a w))) = messages a \<and>
             built (snd (snd (initialize e a w))) = built w @ [h]"
  using assms
  by (cases "config a")
    (simp_all add: initialize_def bind_client_def constructor_accepts_def
      resolved_config_def Let_def)

text \<open>
  When the constructor raises, \<^verbatim>\<open>initialize\<close> raises its exception; no client is stored
  and no handle is logged, and the configuration read from the environment stays.
\<close>

lemma initialize_constructor_raises:
  assumes "config a = None \<longrightarrow> missing_vars e = []"
    and "client_error e (api_key (resolved_config e a)) (api_version (resolved_config e a))
           (api_base (resolved_config e a)) = Some d"
  shows "initialize e a w = (Inl (ClientError d), a\<lparr>config := Some (resolved_config e a)\<rparr>, w)"
  using assms
  by (cases "config a") (simp_all add: initialize_def bind_client_def resolved_config_def Let_def)

text \<open>Neither the \<^verbatim>\<open>try\<close> body nor the handler touches the client, the configuration or
  the list of handles.\<close>

lemma except_Exception_keeps:
  "client (fst (snd (except_Exception e r))) = client (fst (snd r)) \<and>
   config (fst (snd (except_Exception e r))) = config (fst (snd r)) \<and>
   built (snd (snd (except_Exception e r))) = built (snd (snd r))"
  by (cases r) (auto simp: except_Exception_def add_message_def new_Message_def Let_def
      split: sum.splits)

lemma try_completion_keeps:
  "client (fst (snd (try_completion e msgs a w))) = client a \<and>
   config (fst (snd (try_completion e msgs a w))) = config a \<and>
   built (snd (snd (try_completion e msgs a w))) = built w"
  by (auto simp: try_completion_def add_message_def new_Message_def Let_def
      split: option.splits completion.splits list.splits sum.splits)

text \<open>Both only add messages at the end.\<close>

lemma except_Exception_prefix:
  "prefix (messages (fst (snd r))) (messages (fst (snd (except_Exception e r))))"
  by (cases r) (auto simp: except_Exception_def add_message_def new_Message_def Let_def
      split: sum.splits)

lemma try_completion_prefix:
  "prefix (messages a) (messages (fst (snd (try_completion e msgs a w))))"
  by (auto simp: try_completion_def add_message_def new_Message_def Let_def
      split: option.splits completion.splits list.splits sum.splits)

lemma echo_message_prefix:
  "prefix (messages a) (messages (fst (snd (echo_message e t a w))))"
proof -
  let ?a1 = "a\<lparr>messages := messages a @ [\<lparr>role = ''user'', content = t\<rparr>]\<rparr>"
  let ?r = "try_completion e (map ModelObject (messages ?a1)) ?a1 w"
  have "prefix (messages a) (messages ?a1)"
    by simp
  also have "prefix (messages ?a1) (messages (fst (snd ?r)))"
    by (rule try_completion_prefix)
  also have "prefix (messages (fst (snd ?r))) (messages (fst (snd (except_Exception e ?r))))"
    by (rule except_Exception_prefix)
  finally show ?thesis
    by (simp add: echo_message_def add_message_Some)
qed

lemma process_with_ai_prefix:
  "prefix (messages a) (messages (fst (snd (process_with_ai e t a w))))"
proof -
  obtain u a0 w0 where
    i: "(if client a = None then initialize e a w else (Inr (), a, w)) = (u, a0, w0)"
    by (cases "if client a = None then initialize e a w else (Inr (), a, w)") auto
  have m: "messages a0 = messages a"
    using i initialize_messages [of e a w] by (auto split: if_splits)
  show ?thesis
  proof (cases u)
    case (Inl x)
    with i m show ?thesis
      by (simp add: process_with_ai_def)
  next
    case (Inr v)
    let ?a1 = "a0\<lparr>messages := messages a0 @ [\<lparr>role = ''user'', content = t\<rparr>]\<rparr>"
    let ?r = "try_completion e (map (\<lambda>msg. Dict (as_dict msg)) (messages ?a1)) ?a1 w0"
    have "prefix (messages a) (messages ?a1)"
      by (simp add: m)
    also have "prefix (messages ?a1) (messages (fst (snd ?r)))"
      by (rule try_completion_prefix)
    also have "prefix (messages (fst (snd ?r))) (messages (fst (snd (except_Exception e ?r))))"
      by (rule except_Exception_prefix)
    finally show ?thesis
      using i Inr by (simp add: process_with_ai_def add_message_Some Let_def)
  qed
qed

text \<open>A call of \<^verbatim>\<open>process_with_ai\<close> that finds a client keeps it and builds none.\<close>

lemma process_with_ai_ready:
  assumes "client a = Some h"
  shows "client (fst (snd (process_with_ai e t a w))) = Some h \<and>
         built (snd (snd (process_with_ai e t a w))) = built w"
  using assms
  by (simp add: process_with_ai_def add_message_def new_Message_def Let_def
      except_Exception_keeps try_completion_keeps)

lemma process_all_ready:
  assumes "client a = Some h"
  shows "client (fst (process_all e ts a w)) = Some h \<and>
         built (snd (process_all e ts a w)) = built w"
  using assms
proof (induction ts arbitrary: a w)
  case Nil
  then show ?case by simp
next
  case (Cons t ts)
  obtain r a1 w1 where p: "process_with_ai e t a w = (r, a1, w1)"
    by (cases "process_with_ai e t a w") auto
  with process_with_ai_ready [OF Cons.prems, of e t w]
  have "client a1 = Some h" and "built w1 = built w"
    by simp_all
  with Cons.IH [of a1 w1] p show ?case
    by simp
qed

lemma process_with_ai_first:
  assumes "client a = None" and "config a = None \<longrightarrow> missing_vars e = []"
    and "constructor_accepts e a"
  shows "\<exists>h. client (fst (snd (process_with_ai e t a w))) = Some h \<and>
             built (snd (snd (process_with_ai e t a w))) = built w @ [h]"
proof -
  obtain u a0 w0 where i: "initialize e a w = (u, a0, w0)"
    by (cases "initialize e a w") auto
  with initialize_returns [OF assms(2) assms(3), of w] obtain h where
    h: "u = Inr ()" "client a0 = Some h" "built w0 = built w @ [h]"
    by auto
  with assms(1) i show ?thesis
    by (simp add: process_with_ai_def add_message_def new_Message_def Let_def
        except_Exception_keeps try_completion_keeps)
qed

lemma add_messages_append:
  "add_messages e ps a =
     Inr (a\<lparr>messages := messages a @ map (\<lambda>(r, c). \<lparr>role = r, content = c\<rparr>) ps\<rparr>)"
  by (induction ps arbitrary: a) (auto simp: add_message_Some)

text \<open>
  The same cycle through \<^verbatim>\<open>process_with_ai\<close> on an agent that has a client: the request
  holds dicts, the rest is as in \<^verbatim>\<open>echo_message\<close>.
\<close>

lemma process_with_ai_remote_failure:
  assumes "client a = Some h" and "config a = Some cfg"
    and "create e (length (sent w)) h (deployment_name cfg)
           (map (\<lambda>msg. Dict (as_dict msg)) (messages a @ [\<lparr>role = ''user'', content = text\<rparr>]))
         = Raises d"
  shows "process_with_ai e text a w =
           (Inr (''Error communicating with Azure OpenAI API: '' @ d),
            a\<lparr>messages := messages a @
                 [\<lparr>role = ''user'', content = text\<rparr>,
                  \<lparr>role = ''system'',
                   content = ''Error communicating with Azure OpenAI API: '' @ d\<rparr>]\<rparr>,
            w\<lparr>sent := sent w @
                 [(deployment_name cfg,
                   map (\<lambda>msg. Dict (as_dict msg))
                     (messages a @ [\<lparr>role = ''user'', content = text\<rparr>]))]\<rparr>)"
  using assms by (simp add: cycle_defs)

lemma process_with_ai_reply:
  assumes "client a = Some h" and "config a = Some cfg"
    and "create e (length (sent w)) h (deployment_name cfg)
           (map (\<lambda>msg. Dict (as_dict msg)) (messages a @ [\<lparr>role = ''user'', content = text\<rparr>]))
         = Response (Some reply # rest)"
  shows "process_with_ai e text a w =
           (Inr reply,
            a\<lparr>messages := messages a @
                 [\<lparr>role = ''user'', content = text\<rparr>,
                  \<lparr>role = ''assistant'', content = reply\<rparr>]\<rparr>,
            w\<lparr>sent := sent w @
                 [(deployment_name cfg,
                   map (\<lambda>msg. Dict (as_dict msg))
                     (messages a @ [\<lparr>role = ''user'', content = text\<rparr>]))]\<rparr>)"
  using assms by (simp add: cycle_defs)

text \<open>
  A response without choices, or whose first choice has no text, ends in the handler
  like a raise of the call: \<^verbatim>\<open>choices[0]\<close> raises \<^verbatim>\<open>IndexError\<close>, and
  \<^verbatim>\<open>Message(content=None)\<close> raises \<^verbatim>\<open>ValidationError\<close>.
\<close>

lemma malformed_response_absorbed:
  assumes "client a = Some h" and "config a = Some cfg"
    and "create e (length (sent w)) h (deployment_name cfg)
           (map ModelObject (messages a @ [\<lparr>role = ''user'', content = text\<rparr>])) = Response cs"
    and "cs = [] \<or> hd cs = None"
  shows "\<exists>x. echo_message e text a w =
           (Inr (''Error communicating with Azure OpenAI API: '' @ x),
            a\<lparr>messages := messages a @
                 [\<lparr>role = ''user'', content = text\<rparr>,
                  \<lparr>role = ''system'',
                   content = ''Error communicating with Azure OpenAI API: '' @ x\<rparr>]\<rparr>,
            w\<lparr>sent := sent w @
                 [(deployment_name cfg,
                   map ModelObject (messages a @ [\<lparr>role = ''user'', content = text\<rparr>]))]\<rparr>)"
  using assms by (cases cs) (auto simp: cycle_defs)

subsection \<open>Remote failure and remote success\<close>

text \<open>
  C3: on an agent that has a client and a configuration, when the completion call
  raises with description \<open>d\<close>, \<^verbatim>\<open>echo_message\<close> returns (it does not raise) the error
  string, which ends with \<open>d\<close>; the transcript is the old one followed by the user
  message and then a system message holding the error string; one request was sent.
\<close>

theorem remote_failure_absorbed:
  assumes "client a = Some h" and "config a = Some cfg"
    and "create e (length (sent w)) h (deployment_name cfg)
           (map ModelObject (messages a @ [\<lparr>role = ''user'', content = text\<rparr>])) = Raises d"
  shows "echo_message e text a w =
           (Inr (''Error communicating with Azure OpenAI API: '' @ d),
            a\<lparr>messages := messages a @
                 [\<lparr>role = ''user'', content = text\<rparr>,
                  \<lparr>role = ''system'',
                   content = ''Error communicating with Azure OpenAI API: '' @ d\<rparr>]\<rparr>,
            w\<lparr>sent := sent w @
                 [(deployment_name cfg,
                   map ModelObject (messages a @ [\<lparr>role = ''user'', content = text\<rparr>]))]\<rparr>)"
  using assms by (simp add: cycle_defs)

theorem remote_failure_absorbed_witness:
  "client ready_agent \<noteq> None \<and>
   echo_message (env_of full_vars (Raises ''Connection error.'')) ''hello''
       ready_agent fresh_world =
     (Inr ''Error communicating with Azure OpenAI API: Connection error.'',
      ready_agent\<lparr>messages :=
         [\<lparr>role = ''user'', content = ''hello''\<rparr>,
          \<lparr>role = ''system'',
           content = ''Error communicating with Azure OpenAI API: Connection error.''\<rparr>]\<rparr>,
      \<lparr>sent = [(''gpt-4o'', [ModelObject \<lparr>role = ''user'', content = ''hello''\<rparr>])],
       built = []\<rparr>)"
proof -
  let ?h = "\<lparr>client_api_key = ''secret'', client_api_version = ''2024-02-01'',
             azure_endpoint = ''https://example.openai.azure.com''\<rparr>"
  let ?cfg = "\<lparr>api_key = ''secret'', api_base = ''https://example.openai.azure.com'',
               api_version = ''2024-02-01'', deployment_name = ''gpt-4o''\<rparr>"
  let ?e = "env_of full_vars (Raises ''Connection error.'')"
  have c: "client ready_agent = Some ?h"
    by (simp add: ready_agent_def)
  have g: "config ready_agent = Some ?cfg"
    by (simp add: ready_agent_def)
  have r: "create ?e (length (sent fresh_world)) ?h (deployment_name ?cfg)
             (map ModelObject (messages ready_agent @ [\<lparr>role = ''user'', content = ''hello''\<rparr>]))
           = Raises ''Connection error.''"
    by (simp add: env_of_def)
  show ?thesis
    using c remote_failure_absorbed [OF c g r]
    by (simp add: ready_agent_def fresh_world_def)
qed

text \<open>
  C4: on an agent that has a client and a configuration, when the completion call
  returns a response whose first choice holds the text \<open>reply\<close>, \<^verbatim>\<open>echo_message\<close>
  returns \<open>reply\<close>; the transcript is the old one followed by the user message and then
  the assistant message holding \<open>reply\<close>; one request was sent.
\<close>

theorem reply_appended:
  assumes "client a = Some h" and "config a = Some cfg"
    and "create e (length (sent w)) h (deployment_name cfg)
           (map ModelObject (messages a @ [\<lparr>role = ''user'', content = text\<rparr>]))
         = Response (Some reply # rest)"
  shows "echo_message e text a w =
           (Inr reply,
            a\<lparr>messages := messages a @
                 [\<lparr>role = ''user'', content = text\<rparr>,
                  \<lparr>role = ''assistant'', content = reply\<rparr>]\<rparr>,
            w\<lparr>sent := sent w @
                 [(deployment_name cfg,
                   map ModelObject (messages a @ [\<lparr>role = ''user'', content = text\<rparr>]))]\<rparr>)"
  using assms by (simp add: cycle_defs)

theorem reply_appended_witness:
  "client ready_agent \<noteq> None \<and>
   echo_message (env_of full_vars (Response [Some ''Access granted.''])) ''hello''
       ready_agent fresh_world =
     (Inr ''Access granted.'',
      ready_agent\<lparr>messages :=
         [\<lparr>role = ''user'', content = ''hello''\<rparr>,
          \<lparr>role = ''assistant'', content = ''Access granted.''\<rparr>]\<rparr>,
      \<lparr>sent = [(''gpt-4o'', [ModelObject \<lparr>role = ''user'', content = ''hello''\<rparr>])],
       built = []\<rparr>)"
proof -
  let ?h = "\<lparr>client_api_key = ''secret'', client_api_version = ''2024-02-01'',
             azure_endpoint = ''https://example.openai.azure.com''\<rparr>"
  let ?cfg = "\<lparr>api_key = ''secret'', api_base = ''https://example.openai.azure.com'',
               api_version = ''2024-02-01'', deployment_name = ''gpt-4o''\<rparr>"
  let ?e = "env_of full_vars (Response [Some ''Access granted.''])"
  have c: "client ready_agent = Some ?h"
    by (simp add: ready_agent_def)
  have g: "config ready_agent = Some ?cfg"
    by (simp add: ready_agent_def)
  have r: "create ?e (length (sent fresh_world)) ?h (deployment_name ?cfg)
             (map ModelObject (messages ready_agent @ [\<lparr>role = ''user'', content = ''hello''\<rparr>]))
           = Response (Some ''Access granted.'' # [])"
    by (simp add: env_of_def)
  show ?thesis
    using c reply_appended [OF c g r]
    by (simp add: ready_agent_def fresh_world_def)
qed

subsection \<open>What is sent\<close>

text \<open>
  C5, evaluated: on the same agent, with the same text and the same endpoint,
  \<^verbatim>\<open>echo_message\<close> sends the \<^verbatim>\<open>Message\<close> objects of the transcript as they are (line
  82), and \<^verbatim>\<open>process_with_ai\<close> sends the role/content dicts built at line 102. Both
  requests hold the whole transcript in insertion order; only the second is converted.
\<close>

theorem echo_message_sends_model_objects:
  "sent (snd (snd (echo_message (env_of full_vars (Response [Some ''ok''])) ''hello''
                     ready_agent fresh_world)))
     = [(''gpt-4o'', [ModelObject \<lparr>role = ''user'', content = ''hello''\<rparr>])] \<and>
   sent (snd (snd (process_with_ai (env_of full_vars (Response [Some ''ok''])) ''hello''
                     ready_agent fresh_world)))
     = [(''gpt-4o'', [Dict [(''role'', ''user''), (''content'', ''hello'')]])]"
  by (simp add: cycle_defs as_dict_def env_of_def ready_agent_def fresh_world_def)

subsection \<open>The snapshot\<close>

text \<open>
  C6: appending any sequence of (role, content) pairs, whatever the roles and so for
  valid roles too, never raises, and afterwards \<^verbatim>\<open>get_chat_history\<close> returns the
  snapshot from before followed by one role/content dict per pair, in the order of the
  calls and with the strings as given.
\<close>

theorem snapshot_insertion_order:
  "add_messages e ps a =
     Inr (a\<lparr>messages := messages a @ map (\<lambda>(r, c). \<lparr>role = r, content = c\<rparr>) ps\<rparr>) \<and>
   get_chat_history
       (a\<lparr>messages := messages a @ map (\<lambda>(r, c). \<lparr>role = r, content = c\<rparr>) ps\<rparr>)
     = get_chat_history a @ map (\<lambda>(r, c). [(''role'', r), (''content'', c)]) ps"
  by (simp add: add_messages_append get_chat_history_def as_dict_def case_prod_unfold)

subsection \<open>Automatic initialization\<close>

text \<open>
  C7, as stated: every session that starts without a client gets one at the first
  \<^verbatim>\<open>process_with_ai\<close>. With no environment variable set and no configuration, two calls
  in a row both raise, the client is still absent and no handle was built.
\<close>

theorem auto_init_once_counterexample:
  "client fresh_agent = None \<and>
   process_all (env_of [] (Response [Some ''ok''])) [''a'', ''b''] fresh_agent fresh_world
     = (fresh_agent, fresh_world)"
  by (simp add: process_with_ai_def initialize_def missing_vars_def env_of_def fresh_agent_def)

text \<open>
  The same happens when the configuration is complete and the constructor refuses it:
  each call raises the constructor's exception, the configuration read at the first call
  stays, the client is still absent and no handle was built.
\<close>

lemma process_all_constructor_refuses:
  "process_all (rejecting (env_of full_vars (Response [Some ''ok''])) ''Invalid URL'')
       [''a'', ''b''] fresh_agent fresh_world
     = (fresh_agent\<lparr>config := Some
          \<lparr>api_key = ''secret'', api_base = ''https://example.openai.azure.com'',
           api_version = ''2024-02-01'', deployment_name = ''gpt-4o''\<rparr>\<rparr>,
        fresh_world)"
  by (simp add: process_with_ai_def initialize_def bind_client_def missing_vars_def
      env_config_def rejecting_def env_of_def full_vars_def fresh_agent_def)

text \<open>
  C7, amended: for a session that starts without a client, whose configuration can be
  resolved (one was supplied, or none of the four variables is absent or empty) and is
  accepted by the client constructor, the first \<^verbatim>\<open>process_with_ai\<close> builds exactly one
  handle \<open>h\<close> and stores it, and after any number of further calls the client is still
  \<open>h\<close> and \<open>h\<close> is still the only handle built.
\<close>

theorem auto_init_once:
  assumes "client a = None" and "config a = None \<longrightarrow> missing_vars e = []"
    and "constructor_accepts e a"
  shows "\<exists>h. client (fst (snd (process_with_ai e t a w))) = Some h \<and>
             built (snd (snd (process_with_ai e t a w))) = built w @ [h] \<and>
             client (fst (process_all e (t # ts) a w)) = Some h \<and>
             built (snd (process_all e (t # ts) a w)) = built w @ [h]"
proof -
  obtain r a1 w1 where p: "process_with_ai e t a w = (r, a1, w1)"
    by (cases "process_with_ai e t a w") auto
  with process_with_ai_first [OF assms, of t w] obtain h where
    h: "client a1 = Some h" "built w1 = built w @ [h]"
    by auto
  from process_all_ready [OF h(1), of e ts w1] h(2) p
  have "client (fst (process_all e (t # ts) a w)) = Some h"
    and "built (snd (process_all e (t # ts) a w)) = built w @ [h]"
    by simp_all
  with h p show ?thesis
    by simp
qed

theorem auto_init_once_witness:
  "client fresh_agent = None \<and>
   missing_vars (env_of full_vars (Response [Some ''ok''])) = [] \<and>
   constructor_accepts (env_of full_vars (Response [Some ''ok''])) fresh_agent \<and>
   built (snd (process_all (env_of full_vars (Response [Some ''ok''])) [''a'', ''b'']
                 fresh_agent fresh_world))
     = [\<lparr>client_api_key = ''secret'', client_api_version = ''2024-02-01'',
         azure_endpoint = ''https://example.openai.azure.com''\<rparr>]"
proof -
  let ?e = "env_of full_vars (Response [Some ''ok''])"
  have c: "client fresh_agent = None"
    by (simp add: fresh_agent_def)
  have m: "missing_vars ?e = []"
    by (simp add: missing_vars_def env_of_def full_vars_def)
  then have g: "config fresh_agent = None \<longrightarrow> missing_vars ?e = []"
    by simp
  have k: "constructor_accepts ?e fresh_agent"
    by (simp add: constructor_accepts_def env_of_def)
  have f: "client (fst (snd (process_with_ai ?e ''a'' fresh_agent fresh_world)))
            = Some \<lparr>client_api_key = ''secret'', client_api_version = ''2024-02-01'',
                     azure_endpoint = ''https://example.openai.azure.com''\<rparr>"
    by (simp add: cycle_defs initialize_def bind_client_def env_config_def
        missing_vars_def env_of_def full_vars_def fresh_agent_def fresh_world_def)
  from auto_init_once [OF c g k, of "''a''" fresh_world "[''b'']"] f
  have "built (snd (process_all ?e [''a'', ''b''] fresh_agent fresh_world))
     = [\<lparr>client_api_key = ''secret'', client_api_version = ''2024-02-01'',
         azure_endpoint = ''https://example.openai.azure.com''\<rparr>]"
    by (auto simp: fresh_world_def)
  with c m k show ?thesis
    by simp
qed

text \<open>
  An exception of the constructor leaves \<^verbatim>\<open>process_with_ai\<close> too, before line 99: no
  message is appended and no request is sent.
\<close>

lemma process_with_ai_constructor_raises:
  assumes "client a = None" and "config a = None \<longrightarrow> missing_vars e = []"
    and "client_error e (api_key (resolved_config e a)) (api_version (resolved_config e a))
           (api_base (resolved_config e a)) = Some d"
  shows "process_with_ai e text a w =
           (Inl (ClientError d), a\<lparr>config := Some (resolved_config e a)\<rparr>, w)"
  using assms(1) initialize_constructor_raises [OF assms(2) assms(3), of w]
  by (simp add: process_with_ai_def)

text \<open>
  C8: when \<^verbatim>\<open>process_with_ai\<close> finds no client and \<^verbatim>\<open>initialize\<close> raises the
  \<^verbatim>\<open>ValueError\<close> of line 57, the call raises that same exception, whose text lists the
  missing variables; the agent and the log are exactly as before the call: no message
  was appended, no request was sent and no handle was built.
\<close>

theorem process_with_ai_configuration_error:
  assumes "client a = None" and "fst (initialize e a w) = Inl (ValueError s)"
  shows "process_with_ai e text a w = (Inl (ValueError s), a, w) \<and>
         s = missing_text (missing_vars e)"
proof -
  from assms(2) have m: "config a = None \<and> missing_vars e \<noteq> []"
    by (auto simp: initialize_def bind_client_def Let_def split: option.splits if_splits)
  then have "initialize e a w = (Inl (ValueError (missing_text (missing_vars e))), a, w)"
    by (simp add: initialize_raises)
  with assms show ?thesis
    by (simp add: process_with_ai_def)
qed

theorem process_with_ai_configuration_error_witness:
  "client fresh_agent = None \<and>
   fst (initialize (env_of blank_vars (Response [Some ''ok''])) fresh_agent fresh_world)
     = Inl (ValueError ''Missing required environment variables: AZURE_OPENAI_API_KEY, AZURE_OPENAI_API_BASE. Please check your .env file.'') \<and>
   process_with_ai (env_of blank_vars (Response [Some ''ok''])) ''hello'' fresh_agent fresh_world
     = (Inl (ValueError ''Missing required environment variables: AZURE_OPENAI_API_KEY, AZURE_OPENAI_API_BASE. Please check your .env file.''),
        fresh_agent, fresh_world)"
proof -
  let ?e = "env_of blank_vars (Response [Some ''ok''])"
  let ?s = "''Missing required environment variables: AZURE_OPENAI_API_KEY, AZURE_OPENAI_API_BASE. Please check your .env file.''"
  have c: "client fresh_agent = None"
    by (simp add: fresh_agent_def)
  have i: "fst (initialize ?e fresh_agent fresh_world) = Inl (ValueError ?s)"
    by (simp add: initialize_def missing_vars_def missing_text_def env_of_def blank_vars_def
        fresh_agent_def Let_def)
  show ?thesis
    using c i process_with_ai_configuration_error [OF c i, of "''hello''"]
    by simp
qed

subsection \<open>The transcript only grows\<close>

text \<open>
  C9: \<^verbatim>\<open>add_message\<close> puts exactly one message at the end, so the length grows by
  one; after \<^verbatim>\<open>echo_message\<close>, \<^verbatim>\<open>process_with_ai\<close> and \<^verbatim>\<open>initialize\<close>, whatever they
  return or raise, the old transcript is a prefix of the new one, so no message was
  removed, moved or changed and the length did not decrease. \<^verbatim>\<open>get_chat_history\<close>
  returns data and no agent: it changes nothing.
\<close>

theorem transcript_append_only:
  "add_message e r (Some c) a
     = Inr (a\<lparr>messages := messages a @ [\<lparr>role = r, content = c\<rparr>]\<rparr>) \<and>
   length (messages a @ [\<lparr>role = r, content = c\<rparr>]) = Suc (length (messages a)) \<and>
   prefix (messages a) (messages (fst (snd (echo_message e t a w)))) \<and>
   prefix (messages a) (messages (fst (snd (process_with_ai e t a w)))) \<and>
   prefix (messages a) (messages (fst (snd (initialize e a w)))) \<and>
   length (messages a) \<le> length (messages (fst (snd (echo_message e t a w)))) \<and>
   length (messages a) \<le> length (messages (fst (snd (process_with_ai e t a w))))"
  by (simp add: add_message_Some echo_message_prefix process_with_ai_prefix
      initialize_messages prefix_length_le)

subsection \<open>Submitting without a client\<close>

text \<open>
  C10: \<^verbatim>\<open>echo_message\<close> on an agent without a client does not raise. The attribute
  read on \<^verbatim>\<open>None\<close> at line 80 raises inside the \<^verbatim>\<open>try\<close>; the handler appends the
  system message and returns its text. The transcript is the old one followed by the
  user message and the system message, and no request was sent.
\<close>

theorem echo_without_client:
  assumes "client a = None"
  shows "echo_message e text a w =
           (Inr (''Error communicating with Azure OpenAI API: '' @ none_has_no ''chat''),
            a\<lparr>messages := messages a @
                 [\<lparr>role = ''user'', content = text\<rparr>,
                  \<lparr>role = ''system'',
                   content = ''Error communicating with Azure OpenAI API: ''
                               @ none_has_no ''chat''\<rparr>]\<rparr>,
            w)"
  using assms by (simp add: cycle_defs)

theorem echo_without_client_witness:
  "client fresh_agent = None \<and>
   echo_message (env_of full_vars (Response [Some ''ok''])) ''hello'' fresh_agent fresh_world =
     (Inr (''Error communicating with Azure OpenAI API: '' @ [CHR 0x27] @ ''NoneType''
             @ [CHR 0x27] @ '' object has no attribute '' @ [CHR 0x27] @ ''chat'' @ [CHR 0x27]),
      \<lparr>messages =
         [\<lparr>role = ''user'', content = ''hello''\<rparr>,
          \<lparr>role = ''system'',
           content = ''Error communicating with Azure OpenAI API: '' @ [CHR 0x27] @ ''NoneType''
             @ [CHR 0x27] @ '' object has no attribute '' @ [CHR 0x27] @ ''chat'' @ [CHR 0x27]\<rparr>],
       config = None, client = None\<rparr>,
      fresh_world)"
proof -
  have c: "client fresh_agent = None"
    by (simp add: fresh_agent_def)
  show ?thesis
    using c echo_without_client [OF c, of "env_of full_vars (Response [Some ''ok''])" "''hello''" fresh_world]
    by (simp add: fresh_agent_def none_has_no_def)
qed

end
